theory Spec2Isabelle
  imports Main "HOL-Library.Word"
begin

section \<open>Values, errors and the external collaborators\<close>

text \<open>
  The record codec of \<^verbatim>\<open>fitsrec.py\<close> works on arrays supplied by the array runtime.
  A cell of raw storage or of a logical (converted) column is a \<open>val\<close>. A floating
  point element is held as its 64-bit pattern; no arithmetic on it is defined here,
  every numeric operation of the array runtime is a field of \<open>runtime\<close> below.
\<close>

type_synonym byte = "8 word"

datatype val =
    VInt int
  | VFlt "64 word"
  | VStr string
  | VBool bool
  | VBytes "byte list"
  | VDesc int int
  | VSeq "val list"

text \<open>The exceptions the code raises, as values.\<close>

datatype error = IndexError | KeyError | TypeError | ValueError | AttributeError | IOError

text \<open>A column is addressed by name or by position.\<close>

datatype key = Name string | Pos int

datatype tbtype = BinTableHDU | TableHDU

text \<open>
  An entry of \<^verbatim>\<open>_coldefs._recformats\<close>: a format string, which for a bit column
  (\<^verbatim>\<open>_FormatX\<close>) carries \<^verbatim>\<open>_nx\<close> and for a variable-length column
  (\<^verbatim>\<open>_FormatP\<close>) carries \<^verbatim>\<open>_dtype\<close>.
\<close>

datatype recformat = FormatX string nat | FormatP string string | Format string

fun rf_str :: "recformat \<Rightarrow> string" where
  "rf_str (FormatX s _) = s"
| "rf_str (FormatP s _) = s"
| "rf_str (Format s) = s"

text \<open>
  The column-definition object \<^verbatim>\<open>_coldefs\<close>, with the attributes the codec reads.
  A scale or zero entry is \<open>None\<close> for Python's \<^verbatim>\<open>None\<close>, \<open>Some (VStr [])\<close> for the
  empty string and \<open>Some\<close> of a number otherwise.
\<close>

record coldefs =
  tbtype :: tbtype
  cnames :: "string list"
  cformats :: "string list"
  recformats :: "recformat list"
  Formats :: "string list"
  bscales :: "val option list"
  bzeros :: "val option list"
  nulls :: "string list"
  starts :: "int list"
  arrays :: "val list list"
  shape :: nat

text \<open>
  The table array \<^verbatim>\<open>FITS_rec\<close>. \<open>data\<close> is the raw buffer, one list of cells per row;
  \<open>itemsizes\<close> are the byte widths of the fields of its dtype; \<open>names\<close> are the
  dtype's field names; \<open>convert\<close> is the conversion cache \<^verbatim>\<open>_convert\<close>; \<open>file_bytes\<close>
  is the content of the backing file, from which heap data is read.
\<close>

record fits_rec =
  data :: "val list list"
  itemsizes :: "nat list"
  names :: "string list"
  nfields :: nat
  convert :: "val list option list"
  coldefs :: coldefs
  heapoffset :: int
  file_bytes :: "byte list"
  heapsize :: int

text \<open>
  The row accessor \<^verbatim>\<open>FITS_record\<close>. It holds a reference to its array; here it
  holds the array's value at the time the accessor is used.
\<close>

record fits_record =
  array :: fits_rec
  row :: int
  start :: int
  endc :: int

text \<open>
  The array runtime, the column module and the bit-packing routines are outside the
  sources of the codec. What the codec calls of them is a field of \<open>runtime\<close>:
  elementwise arithmetic and casts, parsing and formatting of numbers, bit packing,
  the byte width of an element type, and the constants \<^verbatim>\<open>FITS2NUMPY['L']\<close> and
  \<^verbatim>\<open>str(ASCIITNULL)\<close>.
\<close>

record runtime =
  flt_eq_int :: "64 word \<Rightarrow> int \<Rightarrow> bool"
  np_float64 :: "val \<Rightarrow> val"
  np_multiply :: "val \<Rightarrow> val \<Rightarrow> val"
  np_add :: "val \<Rightarrow> val \<Rightarrow> val"
  np_subtract :: "val \<Rightarrow> val \<Rightarrow> val"
  np_divide :: "val \<Rightarrow> val \<Rightarrow> val"
  np_around :: "val \<Rightarrow> val"
  np_astype :: "recformat \<Rightarrow> val \<Rightarrow> val"
  np_array_str :: "char \<Rightarrow> string \<Rightarrow> val option"
  py_format :: "string \<Rightarrow> val \<Rightarrow> string"
  unwrapx :: "val \<Rightarrow> nat \<Rightarrow> val"
  wrapx :: "val \<Rightarrow> nat \<Rightarrow> val"
  np_itemsize :: "string \<Rightarrow> nat"
  convert_ascii_format :: "string \<Rightarrow> string \<times> int"
  FITS2NUMPY_L :: string
  str_ASCIITNULL :: string

section \<open>Python sequences\<close>

text \<open>Indexing a sequence of length \<open>n\<close> with an integer: negative indices count from the end.\<close>

definition py_index :: "nat \<Rightarrow> int \<Rightarrow> error + nat" where
  "py_index n i =
     (if 0 \<le> i \<and> i < int n then Inr (nat i)
      else if - int n \<le> i \<and> i < 0 then Inr (nat (i + int n))
      else Inl IndexError)"

text \<open>The bounds of \<^verbatim>\<open>xs[i:j]\<close> on a sequence of length \<open>n\<close>.\<close>

definition slice_bound :: "nat \<Rightarrow> int \<Rightarrow> nat" where
  "slice_bound n i = (if i < 0 then nat (max (i + int n) 0) else nat (min i (int n)))"

definition py_slice :: "int \<Rightarrow> int \<Rightarrow> 'a list \<Rightarrow> 'a list" where
  "py_slice i j xs =
     (let lo = slice_bound (length xs) i; hi = slice_bound (length xs) j
      in take (hi - lo) (drop lo xs))"

text \<open>\<^verbatim>\<open>str.strip()\<close> removes leading and trailing whitespace.\<close>

definition is_space :: "char \<Rightarrow> bool" where
  "is_space c = (c \<in> set [CHR '' '', CHR 0x09, CHR 0x0A, CHR 0x0B, CHR 0x0C, CHR 0x0D])"

definition strip :: "string \<Rightarrow> string" where
  "strip s = rev (dropWhile is_space (rev (dropWhile is_space s)))"

text \<open>\<^verbatim>\<open>s.replace(a, b)\<close> for one-character \<open>a\<close> and \<open>b\<close>.\<close>

definition replace_char :: "char \<Rightarrow> char \<Rightarrow> string \<Rightarrow> string" where
  "replace_char a b s = map (\<lambda>c. if c = a then b else c) s"

text \<open>A loop over a sequence that stops at the first exception.\<close>

fun mapE :: "('a \<Rightarrow> error + 'b) \<Rightarrow> 'a list \<Rightarrow> error + 'b list" where
  "mapE f [] = Inr []"
| "mapE f (x # xs) =
     (case f x of
        Inl e \<Rightarrow> Inl e
      | Inr y \<Rightarrow> (case mapE f xs of Inl e \<Rightarrow> Inl e | Inr ys \<Rightarrow> Inr (y # ys)))"

section \<open>Column lookup\<close>

fun find_name :: "string list \<Rightarrow> string \<Rightarrow> nat option" where
  "find_name [] s = None"
| "find_name (n # ns) s = (if n = s then Some 0 else map_option Suc (find_name ns s))"

text \<open>
  Modelled from the spec: \<^verbatim>\<open>_get_index\<close> of the column module is not among the
  sources. A position is the index itself; a name resolves to the position of the
  column of that name in the descriptor set, and an unknown name is an error.
\<close>

definition get_index :: "string list \<Rightarrow> key \<Rightarrow> error + int" where
  "get_index nameList k =
     (case k of
        Pos i \<Rightarrow> Inr i
      | Name s \<Rightarrow> (case find_name nameList s of None \<Rightarrow> Inl KeyError | Some i \<Rightarrow> Inr (int i)))"

section \<open>The field decoder\<close>

text \<open>\<^verbatim>\<open>rec.recarray.field(self, indx)\<close>: the raw column.\<close>

definition rawfield :: "fits_rec \<Rightarrow> nat \<Rightarrow> val list" where
  "rawfield a indx = map (\<lambda>r. r ! indx) (data a)"

text \<open>Python's \<^verbatim>\<open>==\<close> between a header value and an integer.\<close>

definition py_eq_int :: "runtime \<Rightarrow> val \<Rightarrow> int \<Rightarrow> bool" where
  "py_eq_int rt v k =
     (case v of
        VInt i \<Rightarrow> (i = k)
      | VFlt w \<Rightarrow> flt_eq_int rt w k
      | VBool b \<Rightarrow> ((if b then 1 else 0) = k)
      | _ \<Rightarrow> False)"

text \<open>\<^verbatim>\<open>x in ['', None, k]\<close>.\<close>

definition in_defaults :: "runtime \<Rightarrow> val option \<Rightarrow> int \<Rightarrow> bool" where
  "in_defaults rt x k =
     (case x of None \<Rightarrow> True | Some (VStr s) \<Rightarrow> (s = []) | Some v \<Rightarrow> py_eq_int rt v k)"

text \<open>
  \<^verbatim>\<open>FITS_rec._get_scale_factors\<close>. The result is
  \<open>(_str, _bool, _number, _scale, _zero, bscale, bzero)\<close>. Taking the first character
  of an empty format raises.
\<close>

definition get_scale_factors ::
  "runtime \<Rightarrow> fits_rec \<Rightarrow> nat \<Rightarrow> error + (bool \<times> bool \<times> bool \<times> bool \<times> bool \<times> val \<times> val)" where
  "get_scale_factors rt a indx =
     (let cd = coldefs a;
          sb = (if tbtype cd = BinTableHDU
                then Inr (CHR ''a'' \<in> set (cformats cd ! indx),
                          (let s = rf_str (recformats cd ! indx) in drop (length s - 2) s)
                            = FITS2NUMPY_L rt)
                else (case cformats cd ! indx of
                        [] \<Rightarrow> Inl IndexError
                      | c # _ \<Rightarrow> Inr (c = CHR ''A'', False)))
      in case sb of
           Inl e \<Rightarrow> Inl e
         | Inr (str, bool) \<Rightarrow>
             (let number = (\<not> (bool \<or> str));
                  bscale = bscales cd ! indx;
                  bzero = bzeros cd ! indx;
                  scale = (\<not> in_defaults rt bscale 1);
                  zero = (\<not> in_defaults rt bzero 0)
              in Inr (str, bool, number, scale, zero,
                      (if scale then (case bscale of Some v \<Rightarrow> v | None \<Rightarrow> VInt 1) else VInt 1),
                      (if zero then (case bzero of Some v \<Rightarrow> v | None \<Rightarrow> VInt 0) else VInt 0))))"

text \<open>
  \<^verbatim>\<open>_fromfile(file, dtype, count)\<close> after \<^verbatim>\<open>seek(pos)\<close>: up to \<open>count\<close> complete
  elements of \<open>w\<close> bytes each, all that are left when \<open>count\<close> is negative. An element
  read from the heap is kept as its bytes.
\<close>

primrec elems :: "nat \<Rightarrow> nat \<Rightarrow> byte list \<Rightarrow> val list" where
  "elems w 0 bs = []"
| "elems w (Suc n) bs =
     (if length bs < w then [] else VBytes (take w bs) # elems w n (drop w bs))"

definition fromfile :: "byte list \<Rightarrow> nat \<Rightarrow> nat \<Rightarrow> int \<Rightarrow> val list" where
  "fromfile f pos w count =
     (let bs = drop pos f;
          n = (if count < 0 then (if w = 0 then 0 else length bs div w) else nat count)
      in elems w n bs)"

text \<open>\<^verbatim>\<open>np.equal(x, ord('T'))\<close> on one element.\<close>

definition equal_T :: "val \<Rightarrow> val" where
  "equal_T x = VBool (x = VInt 84 \<or> x = VBytes [84])"

definition seq_map :: "(val \<Rightarrow> val) \<Rightarrow> val \<Rightarrow> val" where
  "seq_map f v = (case v of VSeq xs \<Rightarrow> VSeq (map f xs) | x \<Rightarrow> f x)"

text \<open>
  One row of a variable-length column: the descriptor \<open>(count, offset)\<close> is read,
  the file is positioned at \<open>offset + _heapoffset\<close> (a negative position raises) and
  \<open>count\<close> elements are read; character data is read one byte per element.
\<close>

fun read_vlf_row :: "runtime \<Rightarrow> fits_rec \<Rightarrow> string \<Rightarrow> val \<Rightarrow> error + val" where
  "read_vlf_row rt a dt (VDesc count off) =
     (let offset = off + heapoffset a
      in if offset < 0 then Inl IOError
         else Inr (VSeq (fromfile (file_bytes a) (nat offset)
                          (if dt = ''a'' then 1 else np_itemsize rt dt) count)))"
| "read_vlf_row rt a dt _ = Inl IndexError"

text \<open>The branch of \<^verbatim>\<open>field\<close> for a variable-length column.\<close>

definition field_P ::
  "runtime \<Rightarrow> fits_rec \<Rightarrow> nat \<Rightarrow> string \<Rightarrow> bool \<Rightarrow> bool \<Rightarrow> val \<Rightarrow> val \<Rightarrow> error + val list" where
  "field_P rt a indx dt scale zero bscale bzero =
     (case mapE (read_vlf_row rt a dt) (rawfield a indx) of
        Inl e \<Rightarrow> Inl e
      | Inr d0 \<Rightarrow>
          (let d1 = (if scale \<or> zero
                     then map (seq_map (\<lambda>x. np_add rt (np_multiply rt x bscale) bzero)) d0
                     else d0);
               d2 = (if dt = FITS2NUMPY_L rt then map (seq_map equal_T) d1 else d1)
           in Inr d2))"

text \<open>
  The branch of \<^verbatim>\<open>field\<close> for a numeric column of an ASCII table: the exponent marker
  \<open>D\<close> becomes \<open>E\<close>, a text equal to the null sentinel after stripping becomes
  \<^verbatim>\<open>str(ASCIITNULL)\<close>, and the texts are converted to the type chosen by the first
  character of the column's format.
\<close>

definition cell_text :: "val \<Rightarrow> error + string" where
  "cell_text v = (case v of VStr s \<Rightarrow> Inr s | _ \<Rightarrow> Inl AttributeError)"

definition ascii_numbers :: "runtime \<Rightarrow> fits_rec \<Rightarrow> nat \<Rightarrow> error + val list" where
  "ascii_numbers rt a indx =
     (case Formats (coldefs a) ! indx of
        [] \<Rightarrow> Inl IndexError
      | c # _ \<Rightarrow>
          if c \<notin> set ''IFED'' then Inl KeyError
          else (let nullval = strip (nulls (coldefs a) ! indx)
                in case mapE cell_text (rawfield a indx) of
                     Inl e \<Rightarrow> Inl e
                   | Inr texts \<Rightarrow>
                       (let d0 = map (replace_char CHR ''D'' CHR ''E'') texts;
                            d1 = map (\<lambda>s. if strip s = nullval then str_ASCIITNULL rt else s) d0
                        in mapE (\<lambda>s. case np_array_str rt c s of
                                        None \<Rightarrow> Inl ValueError
                                      | Some v \<Rightarrow> Inr v) d1)))"

text \<open>
  The conversion common to ASCII and binary tables, applied to \<open>dummy\<close> (the parsed
  numbers of an ASCII column, the raw column of a binary table). The result is the
  array returned and the new cache slot.
\<close>

definition further_conversion ::
  "runtime \<Rightarrow> bool \<Rightarrow> bool \<Rightarrow> bool \<Rightarrow> bool \<Rightarrow> val \<Rightarrow> val \<Rightarrow> val list option \<Rightarrow> val list
     \<Rightarrow> val list \<times> val list option" where
  "further_conversion rt bool number scale zero bscale bzero slot dummy =
     (if number \<and> (scale \<or> zero)
      then (let c0 = map (np_float64 rt) dummy;
                c1 = (if scale then map (\<lambda>x. np_multiply rt x bscale) c0 else c0);
                c2 = (if zero then map (\<lambda>x. np_add rt x bzero) c1 else c1)
            in (c2, Some c2))
      else if bool then (let c = map equal_T dummy in (c, Some c))
      else (dummy, slot))"

text \<open>
  The body of \<^verbatim>\<open>field\<close> under \<^verbatim>\<open>if self._convert[indx] is None\<close>: the array returned
  and the new content of the cache slot (\<open>None\<close> when the column is not cached).
\<close>

definition decode :: "runtime \<Rightarrow> fits_rec \<Rightarrow> nat \<Rightarrow> error + (val list \<times> val list option)" where
  "decode rt a indx =
     (case recformats (coldefs a) ! indx of
        FormatX _ nx \<Rightarrow>
          (let dummy = map (\<lambda>x. unwrapx rt x nx) (rawfield a indx) in Inr (dummy, Some dummy))
      | rf \<Rightarrow>
          (case get_scale_factors rt a indx of
             Inl e \<Rightarrow> Inl e
           | Inr (str, bool, number, scale, zero, bscale, bzero) \<Rightarrow>
               (case rf of
                  FormatP _ dt \<Rightarrow>
                    (case field_P rt a indx dt scale zero bscale bzero of
                       Inl e \<Rightarrow> Inl e
                     | Inr dummy \<Rightarrow> Inr (dummy, Some dummy))
                | _ \<Rightarrow>
                    if str then Inr (rawfield a indx, None)
                    else if tbtype (coldefs a) = TableHDU
                    then (case ascii_numbers rt a indx of
                            Inl e \<Rightarrow> Inl e
                          | Inr dummy \<Rightarrow>
                              Inr (further_conversion rt bool number scale zero bscale bzero
                                     (Some dummy) dummy))
                    else Inr (further_conversion rt bool number scale zero bscale bzero
                                None (rawfield a indx)))))"

text \<open>
  The position of a column in the cache: \<^verbatim>\<open>_get_index\<close>, then the index into the list
  \<^verbatim>\<open>_convert\<close>, which raises when out of range and counts from the end when negative.
\<close>

definition col_index :: "fits_rec \<Rightarrow> key \<Rightarrow> error + nat" where
  "col_index a k =
     (case get_index (cnames (coldefs a)) k of
        Inl e \<Rightarrow> Inl e
      | Inr i \<Rightarrow> py_index (length (convert a)) i)"

text \<open>
  \<^verbatim>\<open>FITS_rec.field\<close>: the column's array and the array object with its cache updated.
\<close>

definition field :: "runtime \<Rightarrow> fits_rec \<Rightarrow> key \<Rightarrow> error + (val list \<times> fits_rec)" where
  "field rt a k =
     (case col_index a k of
        Inl e \<Rightarrow> Inl e
      | Inr indx \<Rightarrow>
          (case convert a ! indx of
             Some c \<Rightarrow> Inr (c, a)
           | None \<Rightarrow>
               (case decode rt a indx of
                  Inl e \<Rightarrow> Inl e
                | Inr (res, slot) \<Rightarrow> Inr (res, a\<lparr>convert := (convert a)[indx := slot]\<rparr>))))"

text \<open>
  \<^verbatim>\<open>self.field(key)[row] = x\<close>. The array \<^verbatim>\<open>field\<close> returns is the cache slot when the
  column is cached and a view of the raw column otherwise, so the assignment lands
  in the cache or in the raw buffer. The runtime's cast of \<open>x\<close> to the element type
  of the target is not represented: the cell receives \<open>x\<close>.
\<close>

definition field_setitem ::
  "runtime \<Rightarrow> fits_rec \<Rightarrow> key \<Rightarrow> int \<Rightarrow> val \<Rightarrow> error + fits_rec" where
  "field_setitem rt a k r x =
     (case col_index a k of
        Inl e \<Rightarrow> Inl e
      | Inr indx \<Rightarrow>
          (case field rt a k of
             Inl e \<Rightarrow> Inl e
           | Inr (col, a') \<Rightarrow>
               (case py_index (length col) r of
                  Inl e \<Rightarrow> Inl e
                | Inr i \<Rightarrow>
                    (case convert a' ! indx of
                       Some c \<Rightarrow> Inr (a'\<lparr>convert := (convert a')[indx := Some (c[i := x])]\<rparr>)
                     | None \<Rightarrow> Inr (a'\<lparr>data := (data a')[i := (data a' ! i)[indx := x]]\<rparr>)))))"

section \<open>The row accessor\<close>

text \<open>\<^verbatim>\<open>FITS_record.__init__\<close>.\<close>

definition FITS_record :: "fits_rec \<Rightarrow> int \<Rightarrow> int \<Rightarrow> int \<Rightarrow> fits_record" where
  "FITS_record input r startColumn endColumn =
     (let len = int (nfields input)
      in \<lparr> array = input, row = r,
           start = (if startColumn > len then len + 1 else startColumn),
           endc = (if endColumn \<le> 0 \<or> endColumn > len then len else endColumn) \<rparr>)"

text \<open>\<^verbatim>\<open>FITS_record.__getslice__\<close>.\<close>

definition rec_getslice :: "fits_record \<Rightarrow> int \<Rightarrow> int \<Rightarrow> fits_record" where
  "rec_getslice v i j = FITS_record (array v) (row v) i j"

text \<open>
  \<^verbatim>\<open>FITS_record.__getitem__\<close>: the cell and the array with its cache updated.
\<close>

definition rec_getitem :: "runtime \<Rightarrow> fits_record \<Rightarrow> key \<Rightarrow> error + (val \<times> fits_rec)" where
  "rec_getitem rt v k =
     (case (case k of
              Name s \<Rightarrow>
                (case get_index (cnames (coldefs (array v))) k of
                   Inl e \<Rightarrow> Inl e
                 | Inr indx \<Rightarrow>
                     if indx < start v \<or> indx > endc v - 1 then Inl KeyError else Inr indx)
            | Pos n \<Rightarrow>
                (let indx = n + start v
                 in if indx > endc v - 1 then Inl IndexError else Inr indx)) of
        Inl e \<Rightarrow> Inl e
      | Inr indx \<Rightarrow>
          (case field rt (array v) (Pos indx) of
             Inl e \<Rightarrow> Inl e
           | Inr (col, a') \<Rightarrow>
               (case py_index (length col) (row v) of
                  Inl e \<Rightarrow> Inl e
                | Inr r \<Rightarrow> Inr (col ! r, a'))))"

text \<open>\<^verbatim>\<open>FITS_record.__setitem__\<close>: the array after the assignment.\<close>

definition rec_setitem :: "runtime \<Rightarrow> fits_record \<Rightarrow> key \<Rightarrow> val \<Rightarrow> error + fits_rec" where
  "rec_setitem rt v k x =
     (case (case k of
              Name s \<Rightarrow>
                (case get_index (cnames (coldefs (array v))) k of
                   Inl e \<Rightarrow> Inl e
                 | Inr indx \<Rightarrow>
                     if indx < start v \<or> indx > endc v - 1 then Inl KeyError else Inr indx)
            | Pos n \<Rightarrow>
                (let indx = n + start v
                 in if indx > endc v - 1 then Inl IndexError else Inr indx)) of
        Inl e \<Rightarrow> Inl e
      | Inr indx \<Rightarrow> field_setitem rt (array v) (Pos indx) (row v) x)"

text \<open>\<^verbatim>\<open>FITS_record.__len__\<close>.\<close>

definition rec_len :: "fits_record \<Rightarrow> int" where
  "rec_len v = min (endc v - start v) (int (nfields (array v)))"

text \<open>The invariant the specification states for a row accessor.\<close>

definition view_inv :: "fits_record \<Rightarrow> bool" where
  "view_inv v = (0 \<le> start v \<and> start v \<le> endc v \<and> endc v \<le> int (nfields (array v)))"

section \<open>Indexing and assignment on the table array\<close>

text \<open>
  The key of \<^verbatim>\<open>FITS_rec.__getitem__\<close>: a column name, a row range \<^verbatim>\<open>slice(i, j)\<close> as
  \<^verbatim>\<open>__getslice__\<close> builds it, or an integer. The result is a column, a new array or a
  row accessor.
\<close>

datatype item_key = KName string | KSlice int int | KInt int

datatype item = IField "val list" | IArray fits_rec | IRecord fits_record

text \<open>
  The loop of the slice branch: for each column the array of the column definitions
  is sliced, the field is touched in the parent, and a slot the parent then holds is
  sliced into the new cache. The state is the parent, the list \<open>arrays\<close> and the new
  cache.
\<close>

fun slice_loop ::
  "runtime \<Rightarrow> int \<Rightarrow> int \<Rightarrow> nat list \<Rightarrow> fits_rec \<times> val list list \<times> val list option list
     \<Rightarrow> error + (fits_rec \<times> val list list \<times> val list option list)" where
  "slice_loop rt i j [] st = Inr st"
| "slice_loop rt i j (idx # rest) (a, arrs, oc) =
     (if idx \<ge> length (arrays (coldefs a)) then Inl IndexError
      else (case field rt a (Pos (int idx)) of
              Inl e \<Rightarrow> Inl e
            | Inr (dummy, a') \<Rightarrow>
                slice_loop rt i j rest
                  (a', arrs @ [py_slice i j (arrays (coldefs a) ! idx)],
                   (case convert a' ! idx of
                      None \<Rightarrow> oc
                    | Some c \<Rightarrow> oc[idx := Some (py_slice i j c)]))))"

text \<open>
  \<^verbatim>\<open>FITS_rec.__getitem__\<close>: the item and the parent array after the call. The new
  array of the slice branch is a row range of the parent's buffer with the parent's
  attributes, a copy of the column definitions holding the sliced arrays, and the
  new cache.
\<close>

definition getitem :: "runtime \<Rightarrow> fits_rec \<Rightarrow> item_key \<Rightarrow> error + (item \<times> fits_rec)" where
  "getitem rt a k =
     (case k of
        KName s \<Rightarrow>
          (case field rt a (Name s) of
             Inl e \<Rightarrow> Inl e
           | Inr (col, a') \<Rightarrow> Inr (IField col, a'))
      | KSlice i j \<Rightarrow>
          (let n = length (names a)
           in case slice_loop rt i j [0..<n] (a, [], replicate n None) of
                Inl e \<Rightarrow> Inl e
              | Inr (a', arrs, oc) \<Rightarrow>
                  (case arrs of
                     [] \<Rightarrow> Inl IndexError
                   | arr0 # _ \<Rightarrow>
                       Inr (IArray (a\<lparr>data := py_slice i j (data a),
                                      coldefs := (coldefs a)\<lparr>arrays := arrs,
                                                             shape := length arr0\<rparr>,
                                      convert := oc\<rparr>),
                            a')))
      | KInt n \<Rightarrow>
          if n \<ge> int (length (data a)) then Inl IndexError
          else Inr (IRecord (FITS_record a n 0 0), a))"







section \<open>The field encoder\<close>

text \<open>Writing a whole raw column: \<^verbatim>\<open>rec.recarray.field(self, indx)[:] = col\<close>.\<close>

definition set_rawfield :: "fits_rec \<Rightarrow> nat \<Rightarrow> val list \<Rightarrow> fits_rec" where
  "set_rawfield a indx col =
     a\<lparr>data := map (\<lambda>(i, r). if i < length col then r[indx := col ! i] else r)
                   (enumerate 0 (data a))\<rparr>"

text \<open>\<^verbatim>\<open>len(x)\<close> of a row of a variable-length column.\<close>

definition val_len :: "val \<Rightarrow> error + int" where
  "val_len v =
     (case v of
        VSeq xs \<Rightarrow> Inr (int (length xs))
      | VStr s \<Rightarrow> Inr (int (length s))
      | VBytes bs \<Rightarrow> Inr (int (length bs))
      | _ \<Rightarrow> Inl TypeError)"

text \<open>\<^verbatim>\<open>np.add.accumulate\<close>: the inclusive running sum.\<close>

fun accumulate :: "int \<Rightarrow> int list \<Rightarrow> int list" where
  "accumulate acc [] = []"
| "accumulate acc (x # xs) = (acc + x) # accumulate (acc + x) xs"

text \<open>
  The descriptor pass for a variable-length column. The descriptors are reset, the
  counts of the logical rows are written to the first rows, the offset of row 0 stays
  0 and that of each later row is the running sum of the counts before it times the
  element width; the heap size so far is added to every offset and then grows by the
  bytes of this column. The integer width of a stored descriptor is declared outside
  the sources; counts and offsets are unbounded here.
\<close>

definition scale_back_P :: "runtime \<Rightarrow> fits_rec \<Rightarrow> nat \<Rightarrow> string \<Rightarrow> val list \<Rightarrow> error + fits_rec" where
  "scale_back_P rt a indx dt c =
     (case mapE val_len c of
        Inl e \<Rightarrow> Inl e
      | Inr npts \<Rightarrow>
          (let nrows = length (data a)
           in if length npts > nrows \<and> length npts \<noteq> 1 then Inl ValueError
              else (let counts = take nrows npts @ replicate (nrows - length npts) 0;
                        w = int (np_itemsize rt dt);
                        offs = (if nrows = 0 then []
                                else 0 # map (\<lambda>t. t * w) (accumulate 0 (butlast counts)));
                        desc = map (\<lambda>(n, off). VDesc n (off + heapsize a)) (zip counts offs)
                    in Inr ((set_rawfield a indx desc)
                              \<lparr>heapsize := heapsize a + sum_list counts * w\<rparr>))))"

text \<open>The table \<^verbatim>\<open>_fmap\<close> of \<^verbatim>\<open>_scale_back\<close>.\<close>

definition fmap_back :: "char \<Rightarrow> string option" where
  "fmap_back c =
     (if c = CHR ''A'' then Some ''s''
      else if c = CHR ''I'' then Some ''d''
      else if c = CHR ''F'' then Some ''f''
      else if c = CHR ''E'' then Some ''E''
      else if c = CHR ''D'' then Some ''E''
      else None)"

text \<open>
  The loop that formats the numbers of an ASCII column into the raw text fields. A
  text longer than the distance to the next column raises.
\<close>

fun ascii_rows ::
  "runtime \<Rightarrow> string \<Rightarrow> int \<Rightarrow> nat \<Rightarrow> nat list \<Rightarrow> val list \<Rightarrow> fits_rec \<Rightarrow> error + fits_rec" where
  "ascii_rows rt fmt room indx [] dummy a = Inr a"
| "ascii_rows rt fmt room indx (i # rest) dummy a =
     (let x = py_format rt fmt (dummy ! i)
      in if int (length x) > room then Inl ValueError
         else if i \<ge> length (data a) then Inl IndexError
         else ascii_rows rt fmt room indx rest dummy
                (a\<lparr>data := (data a)[i := (data a ! i)[indx := VStr x]]\<rparr>))"

text \<open>
  The ASCII branch of the encoder. \<open>loc\<close> is \<^verbatim>\<open>_loc\<close> and \<open>width\<close> is \<^verbatim>\<open>_width\<close>. The
  argument of each of the two overlap errors is \<^verbatim>\<open>'...' % indx + 1\<close>, the sum of a
  string and an integer, whose evaluation raises \<^verbatim>\<open>TypeError\<close> before the
  \<^verbatim>\<open>ValueError\<close> is built. The final \<^verbatim>\<open>replace('E', 'D')\<close> returns a new array that is
  dropped, so it changes nothing.
\<close>

definition scale_back_ascii ::
  "runtime \<Rightarrow> int list \<Rightarrow> int list \<Rightarrow> fits_rec \<Rightarrow> nat \<Rightarrow> val list \<Rightarrow> error + fits_rec" where
  "scale_back_ascii rt loc width a indx dummy =
     (let format = strip (Formats (coldefs a) ! indx);
          lead = starts (coldefs a) ! indx - loc ! indx
      in if lead < 0 then Inl TypeError
         else (let trail = loc ! (indx + 1) - width ! indx - starts (coldefs a) ! indx
               in if trail < 0 then Inl TypeError
                  else (case format of
                          [] \<Rightarrow> Inl IndexError
                        | c # fs \<Rightarrow>
                            (case fmap_back c of
                               None \<Rightarrow> Inl KeyError
                             | Some t \<Rightarrow>
                                 (let pc = (if CHR ''A'' \<in> set format then ''%-'' else ''%'');
                                      fmt = replicate (nat lead) CHR '' '' @ pc @ fs @ t
                                            @ replicate (nat trail) CHR '' ''
                                  in ascii_rows rt fmt (loc ! (indx + 1) - loc ! indx) indx
                                       [0..<length dummy] dummy a)))))"

text \<open>
  The binary branch of the encoder. Reading the first raw cell raises on a table
  without rows; the values are rounded when that cell is an integer; the column is
  overwritten with the values cast to its element type, which needs as many values
  as rows (or a single value, which is broadcast).
\<close>

definition scale_back_binary :: "runtime \<Rightarrow> fits_rec \<Rightarrow> nat \<Rightarrow> val list \<Rightarrow> error + fits_rec" where
  "scale_back_binary rt a indx dummy =
     (case rawfield a indx of
        [] \<Rightarrow> Inl IndexError
      | x0 # _ \<Rightarrow>
          (let d = (case x0 of VInt _ \<Rightarrow> map (np_around rt) dummy | _ \<Rightarrow> dummy);
               col = map (np_astype rt (recformats (coldefs a) ! indx)) d;
               nrows = length (data a)
           in if length col = nrows then Inr (set_rawfield a indx col)
              else if length col = 1 then Inr (set_rawfield a indx (replicate nrows (hd col)))
              else Inl ValueError))"

text \<open>
  The body of the loop of \<^verbatim>\<open>_scale_back\<close> for column \<open>indx\<close>. Nothing is done for a
  column whose cache slot is empty.
\<close>

definition scale_back_column ::
  "runtime \<Rightarrow> int list \<Rightarrow> int list \<Rightarrow> fits_rec \<Rightarrow> nat \<Rightarrow> error + fits_rec" where
  "scale_back_column rt loc width a indx =
     (case convert a ! indx of
        None \<Rightarrow> Inr a
      | Some c \<Rightarrow>
          (case recformats (coldefs a) ! indx of
             FormatX _ nx \<Rightarrow> Inr (set_rawfield a indx (map (\<lambda>x. wrapx rt x nx) c))
           | rf \<Rightarrow>
               (case get_scale_factors rt a indx of
                  Inl e \<Rightarrow> Inl e
                | Inr (str, bool, number, scale, zero, bscale, bzero) \<Rightarrow>
                    (case (case rf of
                             FormatP _ dt \<Rightarrow> scale_back_P rt a indx dt c
                           | _ \<Rightarrow> Inr a) of
                       Inl e \<Rightarrow> Inl e
                     | Inr a1 \<Rightarrow>
                         if number \<or> str
                         then (if number \<and> (scale \<or> zero)
                               then (let d0 = (if zero then map (\<lambda>x. np_subtract rt x bzero) c
                                               else c);
                                         d1 = (if scale then map (\<lambda>x. np_divide rt x bscale) d0
                                               else d0)
                                     in if tbtype (coldefs a) = TableHDU
                                        then scale_back_ascii rt loc width a1 indx d1
                                        else scale_back_binary rt a1 indx d1)
                               else if tbtype (coldefs a) = TableHDU
                               then scale_back_ascii rt loc width a1 indx c
                               else Inr a1)
                         else if bool
                         then Inr (set_rawfield a1 indx
                                     (map (\<lambda>b. if b = VBool True then VInt 84 else VInt 70) c))
                         else Inr a1))))"

fun scale_back_loop ::
  "runtime \<Rightarrow> int list \<Rightarrow> int list \<Rightarrow> nat list \<Rightarrow> fits_rec \<Rightarrow> error + fits_rec" where
  "scale_back_loop rt loc width [] a = Inr a"
| "scale_back_loop rt loc width (indx # rest) a =
     (case scale_back_column rt loc width a indx of
        Inl e \<Rightarrow> Inl e
      | Inr a' \<Rightarrow> scale_back_loop rt loc width rest a')"

text \<open>
  \<^verbatim>\<open>FITS_rec._scale_back\<close>. For an ASCII table \<^verbatim>\<open>_loc\<close> is the list \<^verbatim>\<open>_coldefs.starts\<close>
  itself, not a copy: the position after the last field is appended to that list,
  and the loop reads \<^verbatim>\<open>_loc\<close> and \<^verbatim>\<open>_coldefs.starts\<close> from the same list. The
  prelude raises when the table has no column or the list of start positions is
  empty.
\<close>

definition scale_back :: "runtime \<Rightarrow> fits_rec \<Rightarrow> error + fits_rec" where
  "scale_back rt a =
     (let n = length (names a)
      in if tbtype (coldefs a) = TableHDU
         then (if n = 0 \<or> starts (coldefs a) = [] \<or> length (itemsizes a) < n then Inl IndexError
               else (let width = map (\<lambda>i. snd (convert_ascii_format rt (Formats (coldefs a) ! i)))
                                   [0..<n];
                         loc = starts (coldefs a)
                               @ [last (starts (coldefs a)) + int (itemsizes a ! (n - 1))];
                         a1 = a\<lparr>coldefs := (coldefs a)\<lparr>starts := loc\<rparr>, heapsize := 0\<rparr>
                     in scale_back_loop rt (starts (coldefs a1)) width [0..<n] a1))
         else scale_back_loop rt [] [] [0..<n] (a\<lparr>heapsize := 0\<rparr>))"

section \<open>The heap image of a variable-length column\<close>




section \<open>Observing a table through its fields\<close>

text \<open>
  Two column-definition objects agree on everything the decoder reads: they may
  differ in names, start positions and the arrays they hold.
\<close>

definition same_formats :: "coldefs \<Rightarrow> coldefs \<Rightarrow> bool" where
  "same_formats c d =
     (tbtype c = tbtype d \<and> cformats c = cformats d \<and> recformats c = recformats d
      \<and> Formats c = Formats d \<and> bscales c = bscales d \<and> bzeros c = bzeros d
      \<and> nulls c = nulls d)"

text \<open>
  The logical column: the cache slot when it is filled, what the decoder returns
  otherwise. \<open>touch\<close> is the array after the column has been read once.
\<close>

definition logical :: "runtime \<Rightarrow> fits_rec \<Rightarrow> nat \<Rightarrow> val list" where
  "logical rt a idx =
     (case convert a ! idx of
        Some c \<Rightarrow> c
      | None \<Rightarrow> (case decode rt a idx of Inr (res, _) \<Rightarrow> res | Inl _ \<Rightarrow> []))"

definition touch :: "runtime \<Rightarrow> fits_rec \<Rightarrow> nat \<Rightarrow> fits_rec" where
  "touch rt a idx =
     (case convert a ! idx of
        Some c \<Rightarrow> a
      | None \<Rightarrow> (case decode rt a idx of
                   Inr (res, slot) \<Rightarrow> a\<lparr>convert := (convert a)[idx := slot]\<rparr>
                 | Inl _ \<Rightarrow> a))"

text \<open>
  A column can be read: its cache slot holds one value per row, or it is empty and
  the decoder succeeds. A table is ready when it has one cache slot per column, every
  row of the buffer has one cell per column, and every column can be read.
\<close>

definition col_ok :: "runtime \<Rightarrow> fits_rec \<Rightarrow> nat \<Rightarrow> bool" where
  "col_ok rt a idx =
     (case convert a ! idx of
        Some c \<Rightarrow> length c = length (data a)
      | None \<Rightarrow> (case decode rt a idx of Inr _ \<Rightarrow> True | Inl _ \<Rightarrow> False))"

definition ready :: "runtime \<Rightarrow> fits_rec \<Rightarrow> bool" where
  "ready rt a =
     (length (convert a) = nfields a
      \<and> list_all (\<lambda>r. length r = nfields a) (data a)
      \<and> list_all (col_ok rt a) [0..<nfields a])"



section \<open>A runtime on integers and sample tables\<close>

text \<open>
  An instance of the runtime whose arithmetic is exact on integer cells, with a
  decimal reader and writer. It serves to evaluate the codec on concrete tables.
\<close>

definition digit_char :: "nat \<Rightarrow> char" where
  "digit_char d = char_of (48 + d)"

function show_nat :: "nat \<Rightarrow> string" where
  "show_nat n = (if n < 10 then [digit_char n] else show_nat (n div 10) @ [digit_char (n mod 10)])"
  by pat_completeness auto
termination
  by (relation "measure id") auto

definition show_int :: "int \<Rightarrow> string" where
  "show_int i = (if i < 0 then CHR ''-'' # show_nat (nat (- i)) else show_nat (nat i))"

definition is_digit :: "char \<Rightarrow> bool" where
  "is_digit c = ((48::nat) \<le> of_char c \<and> (of_char c :: nat) \<le> 57)"

definition read_nat :: "string \<Rightarrow> nat" where
  "read_nat s = foldl (\<lambda>acc c. 10 * acc + ((of_char c :: nat) - 48)) 0 s"

definition read_int :: "string \<Rightarrow> val option" where
  "read_int s =
     (let t = strip s
      in case t of
           [] \<Rightarrow> None
         | c # cs \<Rightarrow>
             if c = CHR ''-'' \<and> cs \<noteq> [] \<and> list_all is_digit cs then Some (VInt (- int (read_nat cs)))
             else if list_all is_digit t then Some (VInt (int (read_nat t)))
             else None)"

definition int_op :: "(int \<Rightarrow> int \<Rightarrow> int) \<Rightarrow> val \<Rightarrow> val \<Rightarrow> val" where
  "int_op f x y = (case (x, y) of (VInt i, VInt j) \<Rightarrow> VInt (f i j) | _ \<Rightarrow> x)"

definition rjust :: "nat \<Rightarrow> string \<Rightarrow> string" where
  "rjust w s = replicate (w - length s) CHR '' '' @ s"

definition int_runtime :: runtime where
  "int_runtime =
     \<lparr> flt_eq_int = (\<lambda>w k. False),
       np_float64 = (\<lambda>x. x),
       np_multiply = int_op (*),
       np_add = int_op (+),
       np_subtract = int_op (-),
       np_divide = int_op (div),
       np_around = (\<lambda>x. x),
       np_astype = (\<lambda>rf x. x),
       np_array_str = (\<lambda>c s. read_int s),
       py_format = (\<lambda>fmt x. case x of
                                VInt i \<Rightarrow> rjust (read_nat (filter is_digit fmt)) (show_int i)
                              | VStr s \<Rightarrow> s
                              | _ \<Rightarrow> []),
       unwrapx = (\<lambda>x n. x),
       wrapx = (\<lambda>x n. x),
       np_itemsize = (\<lambda>dt. if dt = ''i4'' then 4 else if dt = ''i2'' then 2 else 1),
       convert_ascii_format = (\<lambda>f. (take 1 f, int (read_nat (filter is_digit f)))),
       FITS2NUMPY_L = ''i1'',
       str_ASCIITNULL = ''0'' \<rparr>"

text \<open>A binary table of five plain integer columns and two rows, nothing decoded yet.\<close>

definition cols5 :: coldefs where
  "cols5 =
     \<lparr> tbtype = BinTableHDU,
       cnames = [''a'', ''b'', ''c'', ''d'', ''e''],
       cformats = [''J'', ''J'', ''J'', ''J'', ''J''],
       recformats = [Format ''i4'', Format ''i4'', Format ''i4'', Format ''i4'', Format ''i4''],
       Formats = [''J'', ''J'', ''J'', ''J'', ''J''],
       bscales = [Some (VStr []), Some (VStr []), Some (VStr []), Some (VStr []), Some (VStr [])],
       bzeros = [Some (VStr []), Some (VStr []), Some (VStr []), Some (VStr []), Some (VStr [])],
       nulls = [[], [], [], [], []],
       starts = [0, 0, 0, 0, 0],
       arrays = [[VInt 10, VInt 20], [VInt 11, VInt 21], [VInt 12, VInt 22],
                 [VInt 13, VInt 23], [VInt 14, VInt 24]],
       shape = 2 \<rparr>"

definition tbl5 :: fits_rec where
  "tbl5 =
     \<lparr> data = [[VInt 10, VInt 11, VInt 12, VInt 13, VInt 14],
               [VInt 20, VInt 21, VInt 22, VInt 23, VInt 24]],
       itemsizes = [4, 4, 4, 4, 4],
       names = [''a'', ''b'', ''c'', ''d'', ''e''],
       nfields = 5,
       convert = [None, None, None, None, None],
       coldefs = cols5,
       heapoffset = 0,
       file_bytes = [],
       heapsize = 0 \<rparr>"

text \<open>
  An ASCII table of two columns and two rows: a text column \<open>A5\<close> declared at
  position 1 and an integer column \<open>I4\<close> declared at position 4, inside the five
  characters of the first; the null sentinel of the integer column is \<open>NULL\<close>.
\<close>

definition ascii_cols :: coldefs where
  "ascii_cols =
     \<lparr> tbtype = TableHDU,
       cnames = [''label'', ''count''],
       cformats = [''A5'', ''I4''],
       recformats = [Format ''a3'', Format ''a4''],
       Formats = [''A5'', ''I4''],
       bscales = [Some (VStr []), Some (VStr [])],
       bzeros = [Some (VStr []), Some (VStr [])],
       nulls = [[], ''NULL''],
       starts = [1, 4],
       arrays = [[VStr ''abc'', VStr ''def''], [VStr ''  12'', VStr ''NULL'']],
       shape = 2 \<rparr>"

definition ascii_tbl :: fits_rec where
  "ascii_tbl =
     \<lparr> data = [[VStr ''abc'', VStr ''  12''], [VStr ''def'', VStr ''NULL'']],
       itemsizes = [3, 4],
       names = [''label'', ''count''],
       nfields = 2,
       convert = [None, None],
       coldefs = ascii_cols,
       heapoffset = 0,
       file_bytes = [],
       heapsize = 0 \<rparr>"






text \<open>
  A binary table of three columns and four rows: an integer column with scale 2,
  already decoded, a logical column and a plain integer column, neither decoded
  yet. \<open>mix_parent\<close> and \<open>mix_out\<close> are the table after rows 1 to 2 have been
  sliced out of it and the new table.
\<close>

definition mix_cols :: coldefs where
  "mix_cols =
     \<lparr> tbtype = BinTableHDU,
       cnames = [''flux'', ''flag'', ''id''],
       cformats = [''J'', ''L'', ''J''],
       recformats = [Format ''i4'', Format ''i1'', Format ''i4''],
       Formats = [''J'', ''L'', ''J''],
       bscales = [Some (VInt 2), Some (VStr []), Some (VStr [])],
       bzeros = [Some (VStr []), Some (VStr []), Some (VStr [])],
       nulls = [[], [], []],
       starts = [0, 0, 0],
       arrays = [[VInt 1, VInt 2, VInt 3, VInt 4], [VInt 84, VInt 70, VInt 84, VInt 70],
                 [VInt 7, VInt 8, VInt 9, VInt 10]],
       shape = 4 \<rparr>"

definition mix_tbl :: fits_rec where
  "mix_tbl =
     \<lparr> data = [[VInt 1, VInt 84, VInt 7], [VInt 2, VInt 70, VInt 8],
               [VInt 3, VInt 84, VInt 9], [VInt 4, VInt 70, VInt 10]],
       itemsizes = [4, 1, 4],
       names = [''flux'', ''flag'', ''id''],
       nfields = 3,
       convert = [Some [VInt 2, VInt 4, VInt 6, VInt 8], None, None],
       coldefs = mix_cols,
       heapoffset = 0,
       file_bytes = [],
       heapsize = 0 \<rparr>"

definition mix_parent :: fits_rec where
  "mix_parent =
     mix_tbl\<lparr>convert := [Some [VInt 2, VInt 4, VInt 6, VInt 8],
                          Some [VBool True, VBool False, VBool True, VBool False],
                          None]\<rparr>"

definition mix_out :: fits_rec where
  "mix_out =
     mix_tbl\<lparr>data := [[VInt 2, VInt 70, VInt 8], [VInt 3, VInt 84, VInt 9]],
             coldefs := mix_cols\<lparr>arrays := [[VInt 2, VInt 3], [VInt 70, VInt 84],
                                            [VInt 8, VInt 9]],
                                 shape := 2\<rparr>,
             convert := [Some [VInt 4, VInt 6], Some [VBool False, VBool True], None]\<rparr>"

section \<open>The window of a row accessor\<close>

text \<open>
  C8, as stated, fails: re-windowing the accessor of row 0 of the five-column table
  with \<open>(3, 2)\<close> gives \<open>start = 3\<close> and \<open>end = 2\<close>, outside the invariant
  \<open>0 \<le> start \<le> end \<le> column_count\<close>.
\<close>

theorem rewindow_breaks_invariant:
  "\<not> view_inv (rec_getslice (FITS_record tbl5 0 0 0) 3 2)"
  by (simp add: view_inv_def rec_getslice_def FITS_record_def tbl5_def)

text \<open>
  C8, amended: an accessor made by single-row indexing has \<open>start = 0\<close> and
  \<open>end = column_count\<close> and satisfies the invariant. An accessor made by
  re-windowing with any \<open>(i, j)\<close> has \<open>0 \<le> end \<le> column_count\<close> and
  \<open>start \<le> column_count + 1\<close>, and satisfies the invariant exactly when
  \<open>0 \<le> i \<le> end\<close>.
\<close>

theorem view_window_bounds:
  "(getitem rt a (KInt n) = Inr (IRecord v, a') \<longrightarrow>
      view_inv v \<and> start v = 0 \<and> endc v = int (nfields a))
   \<and> 0 \<le> endc (rec_getslice w i j)
   \<and> endc (rec_getslice w i j) \<le> int (nfields (array w))
   \<and> start (rec_getslice w i j) \<le> int (nfields (array w)) + 1
   \<and> (view_inv (rec_getslice w i j) \<longleftrightarrow> 0 \<le> i \<and> i \<le> endc (rec_getslice w i j))"
  by (auto simp: getitem_def view_inv_def rec_getslice_def FITS_record_def Let_def
           split: if_splits)

theorem view_window_bounds_witness:
  "getitem int_runtime tbl5 (KInt 1) = Inr (IRecord (FITS_record tbl5 1 0 0), tbl5)
   \<and> view_inv (FITS_record tbl5 1 0 0)
   \<and> view_inv (rec_getslice (FITS_record tbl5 1 0 0) 1 3)"
proof -
  have g: "getitem int_runtime tbl5 (KInt 1) = Inr (IRecord (FITS_record tbl5 1 0 0), tbl5)"
    by (simp add: getitem_def tbl5_def)
  have e: "endc (rec_getslice (FITS_record tbl5 1 0 0) 1 3) = 3"
    by (simp add: rec_getslice_def FITS_record_def tbl5_def)
  from view_window_bounds [of int_runtime tbl5 1 "FITS_record tbl5 1 0 0" tbl5
                              "FITS_record tbl5 1 0 0" 1 3] g e
  show ?thesis by simp
qed

text \<open>
  C4 on the code: over the five-column table, the accessor of row 0 with
  \<open>start = 1\<close> and \<open>end = 3\<close> refuses position 2 and returns the cell of absolute
  column 2 for position 1. Re-windowing it with \<open>(0, 1)\<close> gives \<open>start = 0\<close> and
  \<open>end = 1\<close>: the bounds are taken as absolute columns, not relative to the window,
  and position 0 of the new accessor is the cell of absolute column 0.
\<close>

theorem rewindow_is_absolute:
  "start (rec_getslice (FITS_record tbl5 0 0 0) 1 3) = 1
   \<and> endc (rec_getslice (FITS_record tbl5 0 0 0) 1 3) = 3
   \<and> rec_getitem int_runtime (rec_getslice (FITS_record tbl5 0 0 0) 1 3) (Pos 2)
       = Inl IndexError
   \<and> rec_getitem int_runtime (rec_getslice (FITS_record tbl5 0 0 0) 1 3) (Pos 1)
       = Inr (VInt 12, tbl5)
   \<and> start (rec_getslice (rec_getslice (FITS_record tbl5 0 0 0) 1 3) 0 1) = 0
   \<and> endc (rec_getslice (rec_getslice (FITS_record tbl5 0 0 0) 1 3) 0 1) = 1
   \<and> rec_getitem int_runtime
         (rec_getslice (rec_getslice (FITS_record tbl5 0 0 0) 1 3) 0 1) (Pos 0)
       = Inr (VInt 10, tbl5)"
  by (simp add: rec_getitem_def rec_getslice_def FITS_record_def field_def col_index_def
        get_index_def py_index_def decode_def get_scale_factors_def in_defaults_def
        further_conversion_def rawfield_def tbl5_def cols5_def int_runtime_def)

section \<open>The null sentinel of an ASCII column\<close>











section \<open>Descriptors of a variable-length column\<close>










section \<open>Overlapping columns of an ASCII table\<close>

text \<open>
  C5 on the code. In the sample ASCII table the integer column is declared at
  position 4, before the end of the five-character text column declared at position
  1. After the integer column has been read, the encoder reports nothing: the
  leading gap it tests is the column's start minus the same entry of the same list,
  which is 0, and the numbers are written back. When instead a decoded numeric
  column runs into the next column, the trailing gap is negative and the exception
  raised is \<^verbatim>\<open>TypeError\<close>, from the argument of the intended error.
\<close>

theorem overlap_not_reported:
  "field int_runtime ascii_tbl (Pos 1)
     = Inr ([VInt 12, VInt 0], ascii_tbl\<lparr>convert := [None, Some [VInt 12, VInt 0]]\<rparr>)
   \<and> scale_back int_runtime (ascii_tbl\<lparr>convert := [None, Some [VInt 12, VInt 0]]\<rparr>)
     = Inr (ascii_tbl\<lparr>convert := [None, Some [VInt 12, VInt 0]],
                       data := [[VStr ''abc'', VStr ''  12''], [VStr ''def'', VStr ''   0'']],
                       coldefs := ascii_cols\<lparr>starts := [1, 4, 8]\<rparr>\<rparr>)
   \<and> scale_back int_runtime
         (ascii_tbl\<lparr>coldefs := ascii_cols\<lparr>cformats := [''I5'', ''I4''],
                                            Formats := [''I5'', ''I4'']\<rparr>,
                    convert := [Some [VInt 1, VInt 2], None]\<rparr>)
     = Inl TypeError"
  by code_simp

section \<open>Reading and assigning cells of a ready table\<close>

lemma gsf_formats:
  assumes "same_formats (coldefs b) (coldefs a)"
  shows "get_scale_factors rt b indx = get_scale_factors rt a indx"
proof -
  have "tbtype (coldefs b) = tbtype (coldefs a)" "cformats (coldefs b) = cformats (coldefs a)"
    "recformats (coldefs b) = recformats (coldefs a)" "bscales (coldefs b) = bscales (coldefs a)"
    "bzeros (coldefs b) = bzeros (coldefs a)"
    using assms by (simp_all add: same_formats_def)
  then show ?thesis
    unfolding get_scale_factors_def Let_def by presburger
qed


lemma read_vlf_row_cong:
  "heapoffset b = heapoffset a \<Longrightarrow> file_bytes b = file_bytes a
     \<Longrightarrow> read_vlf_row rt b dt = read_vlf_row rt a dt"
proof (rule ext)
  fix v
  assume "heapoffset b = heapoffset a" "file_bytes b = file_bytes a"
  then show "read_vlf_row rt b dt v = read_vlf_row rt a dt v"
    by (cases v) (simp_all add: Let_def)
qed

lemma field_P_cong:
  assumes "rawfield b indx = rawfield a indx" "heapoffset b = heapoffset a"
    "file_bytes b = file_bytes a"
  shows "field_P rt b indx dt sc ze bs bz = field_P rt a indx dt sc ze bs bz"
  unfolding field_P_def read_vlf_row_cong [OF assms(2,3)] assms(1) ..

lemma ascii_numbers_cong:
  assumes "same_formats (coldefs b) (coldefs a)" "rawfield b indx = rawfield a indx"
  shows "ascii_numbers rt b indx = ascii_numbers rt a indx"
proof -
  have "Formats (coldefs b) = Formats (coldefs a)" "nulls (coldefs b) = nulls (coldefs a)"
    using assms by (simp_all add: same_formats_def)
  then show ?thesis
    unfolding ascii_numbers_def assms(2) by presburger
qed

lemma decode_cong:
  assumes "same_formats (coldefs b) (coldefs a)" "rawfield b indx = rawfield a indx"
    "heapoffset b = heapoffset a" "file_bytes b = file_bytes a"
  shows "decode rt b indx = decode rt a indx"
proof -
  have t: "tbtype (coldefs b) = tbtype (coldefs a)"
    "recformats (coldefs b) = recformats (coldefs a)"
    using assms(1) by (simp_all add: same_formats_def)
  show ?thesis
    unfolding decode_def t gsf_formats [OF assms(1)] field_P_cong [OF assms(2,3,4)]
          ascii_numbers_cong [OF assms(1,2)] assms(2) ..
qed

lemma length_rawfield [simp]: "length (rawfield a indx) = length (data a)"
  by (simp add: rawfield_def)



lemma further_conversion_cases:
  assumes "further_conversion rt bool number scale zero bs bz slot dummy = (res, slot')"
  shows "length res = length dummy \<and> (slot' = Some res \<or> (slot' = slot \<and> res = dummy))"
  using assms by (auto simp: further_conversion_def Let_def split: if_splits)


lemma decode_None:
  assumes d: "decode rt a indx = Inr (res, None)"
    and sf: "same_formats (coldefs b) (coldefs a)"
  shows "decode rt b indx = Inr (rawfield b indx, None)"
proof -
  have t: "tbtype (coldefs b) = tbtype (coldefs a)"
    "recformats (coldefs b) = recformats (coldefs a)"
    using sf by (simp_all add: same_formats_def)
  show ?thesis
  proof (cases "recformats (coldefs a) ! indx")
    case (FormatX s nx)
    then show ?thesis using d by (auto simp: decode_def Let_def)
  next
    case (FormatP s dt)
    then show ?thesis using d by (auto simp: decode_def split: sum.splits prod.splits)
  next
    case (Format s)
    show ?thesis
    proof (cases "get_scale_factors rt a indx")
      case (Inl e)
      then show ?thesis using d Format by (simp add: decode_def)
    next
      case (Inr t')
      then obtain str bool number scale zero bs bz
        where g: "get_scale_factors rt a indx = Inr (str, bool, number, scale, zero, bs, bz)"
        by (cases t') auto
      show ?thesis
      proof (cases str)
        case True
        then show ?thesis using Format g t gsf_formats [OF sf, of rt indx]
          by (simp add: decode_def)
      next
        case False
        show ?thesis
        proof (cases "tbtype (coldefs a) = TableHDU")
          case True
          then obtain dummy where
            r: "further_conversion rt bool number scale zero bs bz (Some dummy) dummy
                    = (res, None)"
            using d Format g False by (auto simp: decode_def split: sum.splits)
          from further_conversion_cases [OF r] show ?thesis by auto
        next
          case nt: False
          then have r: "further_conversion rt bool number scale zero bs bz None
                          (rawfield a indx) = (res, None)"
            using d Format g False by (auto simp: decode_def)
          then have "\<not> (number \<and> (scale \<or> zero))" "\<not> bool"
            by (auto simp: further_conversion_def Let_def split: if_splits)
          then have "further_conversion rt bool number scale zero bs bz None
                          (rawfield b indx) = (rawfield b indx, None)"
            by (auto simp: further_conversion_def)
          then show ?thesis using Format g t gsf_formats [OF sf, of rt indx] False nt
            by (simp add: decode_def)
        qed
      qed
    qed
  qed
qed

lemma decode_None_raw:
  "decode rt a indx = Inr (res, None) \<Longrightarrow> res = rawfield a indx"
  using decode_None [of rt a indx res a] by (simp add: same_formats_def)

lemma decode_convert_upd [simp]: "decode rt (a\<lparr>convert := c\<rparr>) j = decode rt a j"
  by (rule decode_cong) (simp_all add: same_formats_def rawfield_def)

lemma touch_same [simp]:
  "data (touch rt a idx) = data a" "coldefs (touch rt a idx) = coldefs a"
  "nfields (touch rt a idx) = nfields a" "names (touch rt a idx) = names a"
  "heapoffset (touch rt a idx) = heapoffset a" "file_bytes (touch rt a idx) = file_bytes a"
  "length (convert (touch rt a idx)) = length (convert a)"
  by (simp_all add: touch_def split: option.splits sum.splits prod.splits)

lemma touch_convert_other:
  "j \<noteq> idx \<Longrightarrow> convert (touch rt a idx) ! j = convert a ! j"
  by (simp add: touch_def split: option.splits sum.splits prod.splits)

lemma col_index_Pos:
  "idx < length (convert a) \<Longrightarrow> col_index a (Pos (int idx)) = Inr idx"
  by (simp add: col_index_def get_index_def py_index_def)


lemma rawfield_touch [simp]: "rawfield (touch rt a idx) j = rawfield a j"
  by (simp add: rawfield_def)

lemma decode_touch [simp]: "decode rt (touch rt a idx) j = decode rt a j"
  by (rule decode_cong) (simp_all add: same_formats_def)










lemma ready_convert: "ready rt a \<Longrightarrow> length (convert a) = nfields a"
  by (simp add: ready_def)





section \<open>The row index\<close>




section \<open>Assigning a range of rows\<close>





section \<open>Assigning a row from a row accessor\<close>











section \<open>Slicing a row range\<close>

lemma field_Inr_touch:
  assumes "field rt a k = Inr (col, a1)" "col_index a k = Inr idx"
  shows "a1 = touch rt a idx \<and> col = logical rt a idx"
  using assms
  by (auto simp: field_def touch_def logical_def split: option.splits sum.splits)

lemma touch_touch_other:
  assumes "idx' \<noteq> idx"
  shows "convert (touch rt (touch rt a idx) idx') ! idx' = convert (touch rt a idx') ! idx'"
proof -
  define t where "t = touch rt a idx"
  have c: "convert t ! idx' = convert a ! idx'"
    using assms by (simp add: touch_convert_other t_def)
  have d: "decode rt t idx' = decode rt a idx'" by (simp add: t_def)
  have l: "length (convert t) = length (convert a)" by (simp add: t_def)
  have "convert (touch rt t idx') ! idx' = convert (touch rt a idx') ! idx'"
  proof (cases "idx' < length (convert a)")
    case True
    then show ?thesis using c d l
      by (simp add: touch_def [of rt t] touch_def [of rt a]
            split: option.splits sum.splits prod.splits)
  next
    case False
    then show ?thesis using c d l
      by (simp add: touch_def [of rt t] touch_def [of rt a] list_update_beyond
            split: option.splits sum.splits prod.splits)
  qed
  then show ?thesis by (simp add: t_def)
qed

lemma slice_loop_inv:
  assumes "slice_loop rt i j idxs (a, arrs, oc) = Inr (a', arrs', oc')" "distinct idxs"
    "\<forall>idx \<in> set idxs. idx < length (convert a)" "length oc = length (convert a)"
  shows "data a' = data a \<and> coldefs a' = coldefs a \<and> length (convert a') = length (convert a)
         \<and> length oc' = length oc
         \<and> (\<forall>idx \<in> set idxs.
               convert a' ! idx = convert (touch rt a idx) ! idx
               \<and> oc' ! idx = (case convert (touch rt a idx) ! idx of
                                None \<Rightarrow> oc ! idx
                              | Some c \<Rightarrow> Some (py_slice i j c))
               \<and> (convert a ! idx = None \<longrightarrow> (\<exists>res slot. decode rt a idx = Inr (res, slot))))
         \<and> (\<forall>idx. idx \<notin> set idxs \<longrightarrow> convert a' ! idx = convert a ! idx \<and> oc' ! idx = oc ! idx)
         \<and> arrs' = arrs @ map (\<lambda>idx. py_slice i j (arrays (coldefs a) ! idx)) idxs"
  using assms
proof (induction idxs arbitrary: a arrs oc)
  case Nil
  then show ?case by simp
next
  case (Cons idx rest)
  have lt: "idx < length (convert a)" using Cons.prems(3) by simp
  have k: "col_index a (Pos (int idx)) = Inr idx" using lt by (rule col_index_Pos)
  from Cons.prems(1) obtain dummy a1
    where f: "field rt a (Pos (int idx)) = Inr (dummy, a1)"
      and ar: "idx < length (arrays (coldefs a))"
      and rest: "slice_loop rt i j rest
                   (a1, arrs @ [py_slice i j (arrays (coldefs a) ! idx)],
                    (case convert a1 ! idx of
                       None \<Rightarrow> oc
                     | Some c \<Rightarrow> oc[idx := Some (py_slice i j c)]))
                 = Inr (a', arrs', oc')"
    by (auto split: if_splits sum.splits prod.splits)
  have a1: "a1 = touch rt a idx" using field_Inr_touch [OF f k] by simp
  have dec: "convert a ! idx = None \<longrightarrow> (\<exists>res slot. decode rt a idx = Inr (res, slot))"
    using f k by (auto simp: field_def split: option.splits sum.splits)
  define oc1 where "oc1 = (case convert a1 ! idx of
                       None \<Rightarrow> oc
                     | Some c \<Rightarrow> oc[idx := Some (py_slice i j c)])"
  have loc1: "length oc1 = length (convert a1)"
    using Cons.prems(4) by (simp add: oc1_def a1 split: option.splits)
  have ih: "data a' = data a1 \<and> coldefs a' = coldefs a1
         \<and> length (convert a') = length (convert a1)
         \<and> length oc' = length oc1
         \<and> (\<forall>idx \<in> set rest.
               convert a' ! idx = convert (touch rt a1 idx) ! idx
               \<and> oc' ! idx = (case convert (touch rt a1 idx) ! idx of
                                None \<Rightarrow> oc1 ! idx
                              | Some c \<Rightarrow> Some (py_slice i j c))
               \<and> (convert a1 ! idx = None \<longrightarrow> (\<exists>res slot. decode rt a1 idx = Inr (res, slot))))
         \<and> (\<forall>idx. idx \<notin> set rest \<longrightarrow> convert a' ! idx = convert a1 ! idx \<and> oc' ! idx = oc1 ! idx)
         \<and> arrs' = (arrs @ [py_slice i j (arrays (coldefs a) ! idx)])
                      @ map (\<lambda>idx. py_slice i j (arrays (coldefs a1) ! idx)) rest"
    by (rule Cons.IH) (use rest Cons.prems loc1 in \<open>simp_all add: oc1_def a1\<close>)
  have ni: "idx \<notin> set rest" using Cons.prems(2) by simp
  have oc1_idx: "oc1 ! idx = (case convert (touch rt a idx) ! idx of
                                None \<Rightarrow> oc ! idx
                              | Some c \<Rightarrow> Some (py_slice i j c))"
    using lt Cons.prems(4) by (simp add: oc1_def a1 split: option.splits)
  have oc1_other: "\<And>q. q \<noteq> idx \<Longrightarrow> oc1 ! q = oc ! q"
    by (simp add: oc1_def split: option.splits)
  have head: "convert a' ! idx = convert (touch rt a idx) ! idx
               \<and> oc' ! idx = (case convert (touch rt a idx) ! idx of
                                None \<Rightarrow> oc ! idx
                              | Some c \<Rightarrow> Some (py_slice i j c))"
    using ih ni oc1_idx by (simp add: a1)
  have tail: "convert a' ! q = convert (touch rt a q) ! q
               \<and> oc' ! q = (case convert (touch rt a q) ! q of
                                None \<Rightarrow> oc ! q
                              | Some c \<Rightarrow> Some (py_slice i j c))
               \<and> (convert a ! q = None \<longrightarrow> (\<exists>res slot. decode rt a q = Inr (res, slot)))"
    if "q \<in> set rest" for q
  proof -
    have ne: "q \<noteq> idx" using that ni by auto
    have tt: "convert (touch rt a1 q) ! q = convert (touch rt a q) ! q"
      unfolding a1 using ne by (rule touch_touch_other)
    have cq: "convert a1 ! q = convert a ! q" using ne by (simp add: a1 touch_convert_other)
    show ?thesis using ih that tt cq oc1_other [OF ne] by (simp add: a1 split: option.splits)
  qed
  have other: "convert a' ! q = convert a ! q \<and> oc' ! q = oc ! q" if "q \<notin> set (idx # rest)" for q
  proof -
    have ne: "q \<noteq> idx" "q \<notin> set rest" using that by auto
    show ?thesis using ih ne oc1_other [OF ne(1)] by (simp add: a1 touch_convert_other)
  qed
  have ln: "length oc' = length oc" using ih loc1 Cons.prems(4) by (simp add: a1)
  show ?case
    using ih head tail other dec ln by (auto simp: a1)
qed

lemma py_slice_map: "py_slice i j (map f xs) = map f (py_slice i j xs)"
  by (simp add: py_slice_def Let_def take_map drop_map)

lemma field_lazy:
  assumes n: "convert b ! idx = None" and lt: "idx < length (convert b)"
    and d: "decode rt b idx = Inr (res, None)"
  shows "field rt b (Pos (int idx)) = Inr (res, b)"
proof -
  have "(convert b)[idx := None] = convert b"
    using n list_update_id [of "convert b" idx] by simp
  then show ?thesis
    using n d by (simp add: field_def col_index_Pos [OF lt])
qed

lemma mix_slice:
  "getitem int_runtime mix_tbl (KSlice 1 3) = Inr (IArray mix_out, mix_parent)"
  by code_simp

text \<open>
  C3, as stated, fails: the logical column of the sample table has an empty cache
  slot, and after slicing rows 1 to 2 the new table holds that column decoded.
\<close>

theorem slice_materializes_lazy_column:
  "convert mix_tbl ! 1 = None
   \<and> getitem int_runtime mix_tbl (KSlice 1 3) = Inr (IArray mix_out, mix_parent)
   \<and> convert mix_out ! 1 = Some [VBool False, VBool True]"
  using mix_slice by (simp add: mix_tbl_def mix_out_def)

text \<open>
  C3, amended: slicing a row range reads every column of the parent once, which
  fills the parent's cache slot of every column whose decoding is cached. The new
  table holds the sliced rows of the buffer; its cache slot of a column is the
  parent's slot after that pass restricted to the sliced rows, so a column
  materialized in the parent before the slice is the parent's logical array
  restricted to those rows. A column whose slot stays empty in the new table, on
  access, returns the parent's logical column restricted to the sliced rows and
  leaves the new table as it is.
\<close>

theorem slice_cache:
  assumes g: "getitem rt a (KSlice i j) = Inr (IArray out, a')"
    and n: "length (convert a) = length (names a)"
  shows "data out = py_slice i j (data a)
         \<and> (\<forall>idx<length (names a).
               convert a' ! idx = convert (touch rt a idx) ! idx
               \<and> convert out ! idx = map_option (py_slice i j) (convert a' ! idx)
               \<and> (\<forall>c. convert a ! idx = Some c \<longrightarrow> convert out ! idx = Some (py_slice i j c))
               \<and> (convert out ! idx = None
                    \<longrightarrow> field rt out (Pos (int idx))
                          = Inr (py_slice i j (logical rt a idx), out)))"
proof -
  define m where "m = length (names a)"
  from g obtain arrs oc arr0 arest
    where sl: "slice_loop rt i j [0..<m] (a, [], replicate m None) = Inr (a', arrs, oc)"
      and ar: "arrs = arr0 # arest"
      and out: "out = a\<lparr>data := py_slice i j (data a),
                          coldefs := (coldefs a)\<lparr>arrays := arrs, shape := length arr0\<rparr>,
                          convert := oc\<rparr>"
    by (auto simp: getitem_def Let_def m_def split: sum.splits prod.splits list.splits)
  have inv: "length oc = length (replicate m (None :: val list option))
         \<and> (\<forall>idx \<in> set [0..<m].
               convert a' ! idx = convert (touch rt a idx) ! idx
               \<and> oc ! idx = (case convert (touch rt a idx) ! idx of
                                None \<Rightarrow> replicate m None ! idx
                              | Some c \<Rightarrow> Some (py_slice i j c))
               \<and> (convert a ! idx = None \<longrightarrow> (\<exists>res slot. decode rt a idx = Inr (res, slot))))"
    using slice_loop_inv [OF sl] n by (simp add: m_def)
  have d: "data out = py_slice i j (data a)" by (simp add: out)
  have col: "convert a' ! idx = convert (touch rt a idx) ! idx
               \<and> convert out ! idx = map_option (py_slice i j) (convert a' ! idx)
               \<and> (\<forall>c. convert a ! idx = Some c \<longrightarrow> convert out ! idx = Some (py_slice i j c))
               \<and> (convert out ! idx = None
                    \<longrightarrow> field rt out (Pos (int idx))
                          = Inr (py_slice i j (logical rt a idx), out))"
    if idx: "idx < m" for idx
  proof -
    have mem: "idx \<in> set [0..<m]" using idx by simp
    note ii = inv [THEN conjunct2, rule_format, OF mem]
    have lo: "idx < length (convert out)" using inv idx by (simp add: out)
    have c1: "convert a' ! idx = convert (touch rt a idx) ! idx" using ii by simp
    have c2: "convert out ! idx = map_option (py_slice i j) (convert a' ! idx)"
      using ii idx by (simp add: out split: option.splits)
    have c3: "convert out ! idx = Some (py_slice i j c)" if "convert a ! idx = Some c" for c
      using c1 c2 that by (simp add: touch_def)
    have c4: "field rt out (Pos (int idx)) = Inr (py_slice i j (logical rt a idx), out)"
      if none: "convert out ! idx = None"
    proof -
      have t: "convert (touch rt a idx) ! idx = None" using none c1 c2 by simp
      have an: "convert a ! idx = None"
        using t by (cases "convert a ! idx") (simp_all add: touch_def)
      then obtain res slot where dc: "decode rt a idx = Inr (res, slot)"
        using ii by blast
      have lt: "idx < length (convert a)" using idx n by (simp add: m_def)
      have "slot = None" using t an dc lt by (simp add: touch_def)
      then have dn: "decode rt a idx = Inr (res, None)" using dc by simp
      have res: "res = rawfield a idx" using dn by (rule decode_None_raw)
      have lg: "logical rt a idx = rawfield a idx" using an dn res by (simp add: logical_def)
      have sf: "same_formats (coldefs out) (coldefs a)" by (simp add: out same_formats_def)
      have dout: "decode rt out idx = Inr (rawfield out idx, None)"
        using dn sf by (rule decode_None)
      have rw: "rawfield out idx = py_slice i j (rawfield a idx)"
        by (simp add: rawfield_def out py_slice_map)
      show ?thesis using field_lazy [OF none lo dout] rw lg by simp
    qed
    show ?thesis using c1 c2 c3 c4 by blast
  qed
  show ?thesis using d col unfolding m_def by blast
qed

theorem slice_cache_witness:
  "getitem int_runtime mix_tbl (KSlice 1 3) = Inr (IArray mix_out, mix_parent)
   \<and> length (convert mix_tbl) = length (names mix_tbl)
   \<and> convert mix_tbl ! 0 = Some [VInt 2, VInt 4, VInt 6, VInt 8]
   \<and> convert mix_out ! 0 = Some (py_slice 1 3 [VInt 2, VInt 4, VInt 6, VInt 8])
   \<and> convert mix_out ! 2 = None
   \<and> field int_runtime mix_out (Pos 2)
       = Inr (py_slice 1 3 (logical int_runtime mix_tbl 2), mix_out)"
proof -
  have n: "length (convert mix_tbl) = length (names mix_tbl)" "length (names mix_tbl) = 3"
    by (simp_all add: mix_tbl_def)
  have c0: "convert mix_tbl ! 0 = Some [VInt 2, VInt 4, VInt 6, VInt 8]"
    by (simp add: mix_tbl_def)
  have c2: "convert mix_out ! 2 = None" by (simp add: mix_out_def)
  note sc = slice_cache [OF mix_slice n(1), THEN conjunct2, rule_format]
  have i0: "(0::nat) < length (names mix_tbl)" and i2: "(2::nat) < length (names mix_tbl)"
    using n by simp_all
  have r0: "convert mix_out ! 0 = Some (py_slice 1 3 [VInt 2, VInt 4, VInt 6, VInt 8])"
    using sc [OF i0] c0 by blast
  have r2: "field int_runtime mix_out (Pos 2)
              = Inr (py_slice 1 3 (logical int_runtime mix_tbl 2), mix_out)"
    using sc [OF i2] c2 by simp
  show ?thesis using mix_slice n c0 c2 r0 r2 by simp
qed

end
